theory Spec2Isabelle
  imports Main "HOL-Library.Word"
begin

section \<open>MQTT v5 properties (include/mqtt/properties.h)\<close>

subsection \<open>Failures\<close>

text \<open>
  Every \<^verbatim>\<open>throw\<close> of the header is a value of \<open>error\<close>:
  \<^item> \<open>bad_cast\<close>: \<^verbatim>\<open>throw bad_cast()\<close>, in the unspecialised \<^verbatim>\<open>get<T>(const property&)\<close>
    and in \<^verbatim>\<open>get<T>(const properties&, code, size_t)\<close>;
  \<^item> \<open>out_of_range\<close>: \<^verbatim>\<open>throw std::out_of_range{"property index"}\<close> in \<^verbatim>\<open>properties::at\<close>;
  \<^item> \<open>PropertyNotFound\<close> and \<open>InvalidPropertyKind\<close>: the failure kinds the specification
    names for the members whose bodies are in properties.cpp;
  \<^item> \<open>undefined_behaviour\<close>: not an exception. It marks a read the C++ program performs
    outside the storage it owns (an array slot past the allocation, a length that does
    not fit the buffer).
\<close>

datatype error = bad_cast | out_of_range | PropertyNotFound | InvalidPropertyKind
  | undefined_behaviour

subsection \<open>Property codes\<close>

text \<open>\<^verbatim>\<open>enum property::code\<close>, with the integer each enumerator stands for.\<close>

datatype code =
    PAYLOAD_FORMAT_INDICATOR
  | MESSAGE_EXPIRY_INTERVAL
  | CONTENT_TYPE
  | RESPONSE_TOPIC
  | CORRELATION_DATA
  | SUBSCRIPTION_IDENTIFIER
  | SESSION_EXPIRY_INTERVAL
  | ASSIGNED_CLIENT_IDENTIFIER
  | SERVER_KEEP_ALIVE
  | AUTHENTICATION_METHOD
  | AUTHENTICATION_DATA
  | REQUEST_PROBLEM_INFORMATION
  | WILL_DELAY_INTERVAL
  | REQUEST_RESPONSE_INFORMATION
  | RESPONSE_INFORMATION
  | SERVER_REFERENCE
  | REASON_STRING
  | RECEIVE_MAXIMUM
  | TOPIC_ALIAS_MAXIMUM
  | TOPIC_ALIAS
  | MAXIMUM_QOS
  | RETAIN_AVAILABLE
  | USER_PROPERTY
  | MAXIMUM_PACKET_SIZE
  | WILDCARD_SUBSCRIPTION_AVAILABLE
  | SUBSCRIPTION_IDENTIFIERS_AVAILABLE
  | SHARED_SUBSCRIPTION_AVAILABLE

fun MQTTPropertyCodes :: "code \<Rightarrow> int" where
  "MQTTPropertyCodes PAYLOAD_FORMAT_INDICATOR = 1"
| "MQTTPropertyCodes MESSAGE_EXPIRY_INTERVAL = 2"
| "MQTTPropertyCodes CONTENT_TYPE = 3"
| "MQTTPropertyCodes RESPONSE_TOPIC = 8"
| "MQTTPropertyCodes CORRELATION_DATA = 9"
| "MQTTPropertyCodes SUBSCRIPTION_IDENTIFIER = 11"
| "MQTTPropertyCodes SESSION_EXPIRY_INTERVAL = 17"
| "MQTTPropertyCodes ASSIGNED_CLIENT_IDENTIFIER = 18"
| "MQTTPropertyCodes SERVER_KEEP_ALIVE = 19"
| "MQTTPropertyCodes AUTHENTICATION_METHOD = 21"
| "MQTTPropertyCodes AUTHENTICATION_DATA = 22"
| "MQTTPropertyCodes REQUEST_PROBLEM_INFORMATION = 23"
| "MQTTPropertyCodes WILL_DELAY_INTERVAL = 24"
| "MQTTPropertyCodes REQUEST_RESPONSE_INFORMATION = 25"
| "MQTTPropertyCodes RESPONSE_INFORMATION = 26"
| "MQTTPropertyCodes SERVER_REFERENCE = 28"
| "MQTTPropertyCodes REASON_STRING = 31"
| "MQTTPropertyCodes RECEIVE_MAXIMUM = 33"
| "MQTTPropertyCodes TOPIC_ALIAS_MAXIMUM = 34"
| "MQTTPropertyCodes TOPIC_ALIAS = 35"
| "MQTTPropertyCodes MAXIMUM_QOS = 36"
| "MQTTPropertyCodes RETAIN_AVAILABLE = 37"
| "MQTTPropertyCodes USER_PROPERTY = 38"
| "MQTTPropertyCodes MAXIMUM_PACKET_SIZE = 39"
| "MQTTPropertyCodes WILDCARD_SUBSCRIPTION_AVAILABLE = 40"
| "MQTTPropertyCodes SUBSCRIPTION_IDENTIFIERS_AVAILABLE = 41"
| "MQTTPropertyCodes SHARED_SUBSCRIPTION_AVAILABLE = 42"

subsection \<open>The C structs the classes wrap\<close>

text \<open>
  The header includes the Paho C library's \<^verbatim>\<open>MQTTProperties.h\<close> and reads these members:
  \<^verbatim>\<open>identifier\<close>, \<^verbatim>\<open>value.byte\<close>, \<^verbatim>\<open>value.integer2\<close>, \<^verbatim>\<open>value.integer4\<close>,
  \<^verbatim>\<open>value.data.{data,len}\<close> and \<^verbatim>\<open>value.value.{data,len}\<close> of a \<^verbatim>\<open>MQTTProperty\<close>, and
  \<^verbatim>\<open>count\<close> and \<^verbatim>\<open>array\<close> of a \<^verbatim>\<open>MQTTProperties\<close>.

  A \<^verbatim>\<open>char*\<close> is the buffer it points to, \<open>None\<close> for the null pointer. The members
  of the union \<^verbatim>\<open>value\<close> are kept as separate fields: every function below reads one
  member only, so what it returns does not depend on how the members overlap in memory.
  \<^verbatim>\<open>int\<close> is \<open>int\<close>; the conversions to \<^verbatim>\<open>size_t\<close> and back are written out.
\<close>

record MQTTLenString =
  len :: int
  data :: "string option"

record MQTTProperty =
  "identifier" :: int
  value_byte :: "8 word"
  value_integer2 :: "16 word"
  value_integer4 :: "32 word"
  value_data :: MQTTLenString
  value_value :: MQTTLenString

text \<open>
  \<^verbatim>\<open>array\<close> is the storage the pointer refers to; the null pointer is the empty storage.
  The first \<open>count\<close> slots hold the elements of the list.
\<close>

record MQTTProperties =
  count :: int
  array :: "MQTTProperty list"

text \<open>\<^verbatim>\<open>size_t(n)\<close> for an \<^verbatim>\<open>int n\<close>, on a platform whose \<^verbatim>\<open>size_t\<close> has 64 bits.\<close>

definition size_t_of_int :: "int \<Rightarrow> nat" where
  "size_t_of_int n = nat (n mod 2 ^ 64)"

text \<open>\<^verbatim>\<open>int(n)\<close> for a \<^verbatim>\<open>size_t n\<close>: the low 32 bits, read as two's complement.\<close>

definition int_of_size_t :: "nat \<Rightarrow> int" where
  "int_of_size_t n =
     (let m = int n mod 2 ^ 32 in if m < 2 ^ 31 then m else m - 2 ^ 32)"

text \<open>\<^verbatim>\<open>memset(&props, 0, sizeof(MQTTProperties))\<close>: a zero count and a null array.\<close>

definition zeroed_MQTTProperties :: MQTTProperties where
  "zeroed_MQTTProperties = \<lparr>count = 0, array = []\<rparr>"

text \<open>
  The state every constructor and mutator of the list keeps: the count is not negative,
  fits an \<^verbatim>\<open>int\<close>, and the storage holds at least \<open>count\<close> slots.
\<close>

definition wf_MQTTProperties :: "MQTTProperties \<Rightarrow> bool" where
  "wf_MQTTProperties c \<longleftrightarrow> 0 \<le> count c \<and> count c < 2 ^ 31 \<and> nat (count c) \<le> length (array c)"

text \<open>The elements of the list: the first \<open>count\<close> slots of the storage.\<close>

definition elements :: "MQTTProperties \<Rightarrow> MQTTProperty list" where
  "elements c = take (nat (count c)) (array c)"

subsection \<open>class property\<close>

text \<open>The member \<^verbatim>\<open>prop_\<close> is the field \<open>prop_m\<close> (a name cannot end with an underscore).\<close>

record property =
  prop_m :: MQTTProperty

text \<open>
  Modelled from the spec: \<^verbatim>\<open>property::copy\<close> is declared in the header and defined in
  properties.cpp. The specification says the construction from a C struct deep-copies it
  into owned storage; a buffer being its contents here, the copy has the same members.
\<close>

definition copy :: "MQTTProperty \<Rightarrow> MQTTProperty" where
  "copy other = other"

text \<open>\<^verbatim>\<open>explicit property(const MQTTProperty& cprop) { copy(cprop); }\<close>\<close>

definition property_of_c :: "MQTTProperty \<Rightarrow> property" where
  "property_of_c cprop = \<lparr>prop_m = copy cprop\<rparr>"

text \<open>\<^verbatim>\<open>const MQTTProperty& c_struct() const { return prop_; }\<close>\<close>

definition c_struct :: "property \<Rightarrow> MQTTProperty" where
  "c_struct p = prop_m p"

text \<open>\<^verbatim>\<open>code type() const { return code(prop_.identifier); }\<close>, as the enumerator's integer.\<close>

definition property_type :: "property \<Rightarrow> int" where
  "property_type p = identifier (prop_m p)"

subsection \<open>Typed extraction: the specialisations of get<T>(const property&)\<close>

text \<open>The unspecialised template: \<^verbatim>\<open>throw bad_cast();\<close>\<close>

definition get_unspecialised :: "property \<Rightarrow> error + 'a" where
  "get_unspecialised p = Inl bad_cast"

text \<open>\<^verbatim>\<open>return uint8_t(prop.c_struct().value.byte);\<close>\<close>

definition get_uint8 :: "property \<Rightarrow> 8 word" where
  "get_uint8 p = value_byte (c_struct p)"

text \<open>\<^verbatim>\<open>return uint16_t(prop.c_struct().value.integer2);\<close>\<close>

definition get_uint16 :: "property \<Rightarrow> 16 word" where
  "get_uint16 p = value_integer2 (c_struct p)"

text \<open>
  \<^verbatim>\<open>int16_t(prop.c_struct().value.integer2)\<close>: the conversion of an \<^verbatim>\<open>unsigned short\<close>
  to \<^verbatim>\<open>int16_t\<close> keeps the bits; the result is the integer they stand for in two's
  complement.
\<close>

definition get_int16 :: "property \<Rightarrow> int" where
  "get_int16 p = sint (value_integer2 (c_struct p))"

text \<open>\<^verbatim>\<open>return uint32_t(prop.c_struct().value.integer4);\<close>\<close>

definition get_uint32 :: "property \<Rightarrow> 32 word" where
  "get_uint32 p = value_integer4 (c_struct p)"

text \<open>\<^verbatim>\<open>return int32_t(prop.c_struct().value.integer4);\<close>, read as \<open>get_int16\<close> is.\<close>

definition get_int32 :: "property \<Rightarrow> int" where
  "get_int32 p = sint (value_integer4 (c_struct p))"

text \<open>
  \<^verbatim>\<open>string(ptr, n)\<close> reads \<open>n\<close> bytes from the buffer. A length that is negative or larger
  than the buffer is outside what the C struct promises: the constructor reads past the
  buffer or refuses the length.
\<close>

definition string_of_buffer :: "string \<Rightarrow> int \<Rightarrow> error + string" where
  "string_of_buffer buf n =
     (if 0 \<le> n \<and> nat n \<le> length buf then Inr (take (nat n) buf)
      else Inl undefined_behaviour)"

text \<open>
  \<^verbatim>\<open>(!s.data) ? string() : string(s.data, s.len)\<close>, the expression both string extractors
  apply to a \<^verbatim>\<open>MQTTLenString s\<close>.
\<close>

definition string_of_MQTTLenString :: "MQTTLenString \<Rightarrow> error + string" where
  "string_of_MQTTLenString s =
     (case data s of None \<Rightarrow> Inr [] | Some buf \<Rightarrow> string_of_buffer buf (len s))"

definition get_string :: "property \<Rightarrow> error + string" where
  "get_string p = string_of_MQTTLenString (value_data (c_struct p))"

definition get_string_pair :: "property \<Rightarrow> error + string \<times> string" where
  "get_string_pair p =
     (case string_of_MQTTLenString (value_data (c_struct p)) of
        Inl e \<Rightarrow> Inl e
      | Inr name \<Rightarrow>
          (case string_of_MQTTLenString (value_value (c_struct p)) of
             Inl e \<Rightarrow> Inl e
           | Inr val \<Rightarrow> Inr (name, val)))"

subsection \<open>class properties\<close>

text \<open>The member \<^verbatim>\<open>props_\<close> is the field \<open>props_m\<close>.\<close>

record properties =
  props_m :: MQTTProperties

text \<open>\<^verbatim>\<open>bool empty() const { return props_.count == 0; }\<close>\<close>

definition properties_empty :: "properties \<Rightarrow> bool" where
  "properties_empty ps \<longleftrightarrow> count (props_m ps) = 0"

text \<open>\<^verbatim>\<open>size_t size() const { return size_t(props_.count); }\<close>\<close>

definition properties_size :: "properties \<Rightarrow> nat" where
  "properties_size ps = size_t_of_int (count (props_m ps))"

text \<open>\<^verbatim>\<open>props_.array[i]\<close>: a slot of the storage, or a read past it.\<close>

definition array_read :: "MQTTProperty list \<Rightarrow> nat \<Rightarrow> error + MQTTProperty" where
  "array_read a i = (if i < length a then Inr (a ! i) else Inl undefined_behaviour)"

text \<open>
  \<^verbatim>\<open>
  const property at(size_t i) const {
      if (i < size_t(props_.count))
          return property{props_.array[i]};
      throw std::out_of_range{"property index"};
  }\<close>
\<close>

definition properties_at :: "properties \<Rightarrow> nat \<Rightarrow> error + property" where
  "properties_at ps i =
     (if i < size_t_of_int (count (props_m ps)) then
        (case array_read (array (props_m ps)) i of
           Inl e \<Rightarrow> Inl e
         | Inr cprop \<Rightarrow> Inr (property_of_c cprop))
      else Inl out_of_range)"

subsection \<open>The Paho C library's functions on MQTTProperties\<close>

text \<open>
  Modelled from the spec: \<^verbatim>\<open>MQTTProperties_initializer\<close> is a macro of the Paho C library's
  \<^verbatim>\<open>MQTTProperties.h\<close>. The specification says a list is created empty.
\<close>

definition MQTTProperties_initializer :: MQTTProperties where
  "MQTTProperties_initializer = \<lparr>count = 0, array = []\<rparr>"

text \<open>
  Modelled from the spec: \<^verbatim>\<open>MQTTProperties_free\<close> is a function of the Paho C library. The
  specification says that \<^verbatim>\<open>clear()\<close>, which calls it, releases all owned buffers and
  resets the list to empty.
\<close>

definition MQTTProperties_free :: "MQTTProperties \<Rightarrow> MQTTProperties" where
  "MQTTProperties_free c = zeroed_MQTTProperties"

text \<open>
  Modelled from the spec: \<^verbatim>\<open>MQTTProperties_add\<close> is a function of the Paho C library. The
  specification says that \<^verbatim>\<open>add(property)\<close>, which calls it, deep-copies the argument
  into the list's own storage and appends it at the end.
\<close>

definition MQTTProperties_add :: "MQTTProperties \<Rightarrow> MQTTProperty \<Rightarrow> MQTTProperties" where
  "MQTTProperties_add c cprop = \<lparr>count = count c + 1, array = elements c @ [copy cprop]\<rparr>"

text \<open>
  Modelled from the spec: \<^verbatim>\<open>MQTTProperties_copy\<close> is a function of the Paho C library. The
  specification says that a copy deep-copies every element into new storage.
\<close>

definition MQTTProperties_copy :: "MQTTProperties \<Rightarrow> MQTTProperties" where
  "MQTTProperties_copy c =
     \<lparr>count = int (length (elements c)), array = map copy (elements c)\<rparr>"

text \<open>
  Modelled from the spec: \<^verbatim>\<open>MQTTProperties_hasProperty\<close> is a function of the Paho C
  library. The specification says that \<^verbatim>\<open>contains(code)\<close>, which calls it, scans for any
  element with a matching code.
\<close>

fun has_matching :: "MQTTProperty list \<Rightarrow> int \<Rightarrow> int" where
  "has_matching [] propid = 0"
| "has_matching (e # es) propid = (if identifier e = propid then 1 else has_matching es propid)"

definition MQTTProperties_hasProperty :: "MQTTProperties \<Rightarrow> int \<Rightarrow> int" where
  "MQTTProperties_hasProperty c propid = has_matching (elements c) propid"

text \<open>
  Modelled from the spec: \<^verbatim>\<open>MQTTProperties_propertyCount\<close> is a function of the Paho C
  library. The specification says that \<^verbatim>\<open>count(code)\<close>, which calls it, is the count of
  elements with a matching code.
\<close>

fun count_matching :: "MQTTProperty list \<Rightarrow> int \<Rightarrow> int" where
  "count_matching [] propid = 0"
| "count_matching (e # es) propid =
     (if identifier e = propid then 1 + count_matching es propid
      else count_matching es propid)"

definition MQTTProperties_propertyCount :: "MQTTProperties \<Rightarrow> int \<Rightarrow> int" where
  "MQTTProperties_propertyCount c propid = count_matching (elements c) propid"

text \<open>
  Modelled from the spec: \<^verbatim>\<open>MQTTProperties_getPropertyAt\<close> is a function of the Paho C
  library, called with a code and an \<^verbatim>\<open>int\<close> index; the header tests its result against
  the null pointer. The specification says the lookup finds the occurrence-th (0-based)
  element matching the code in list order. The scan passes over the elements in order and
  counts the index down at each match; no match is the null pointer, \<open>None\<close>.
\<close>

fun find_occurrence :: "MQTTProperty list \<Rightarrow> int \<Rightarrow> int \<Rightarrow> MQTTProperty option" where
  "find_occurrence [] propid index = None"
| "find_occurrence (e # es) propid index =
     (if identifier e = propid then
        (if index = 0 then Some e else find_occurrence es propid (index - 1))
      else find_occurrence es propid index)"

definition MQTTProperties_getPropertyAt ::
    "MQTTProperties \<Rightarrow> int \<Rightarrow> int \<Rightarrow> MQTTProperty option" where
  "MQTTProperties_getPropertyAt c propid index = find_occurrence (elements c) propid index"

subsection \<open>class properties: construction, mutation and queries\<close>

text \<open>\<^verbatim>\<open>properties() {}\<close>, with \<^verbatim>\<open>MQTTProperties props_{DFLT_C_STRUCT};\<close>\<close>

definition properties_default :: properties where
  "properties_default = \<lparr>props_m = MQTTProperties_initializer\<rparr>"

text \<open>\<^verbatim>\<open>properties(const properties& other) : props_(::MQTTProperties_copy(&other.props_)) {}\<close>\<close>

definition properties_copy :: "properties \<Rightarrow> properties" where
  "properties_copy other = \<lparr>props_m = MQTTProperties_copy (props_m other)\<rparr>"

text \<open>
  \<^verbatim>\<open>
  properties(properties&& other) : props_(other.props_) {
      std::memset(&other.props_, 0, sizeof(MQTTProperties));
  }\<close>
  The result is the new list and the source as the constructor leaves it.
\<close>

definition properties_move :: "properties \<Rightarrow> properties \<times> properties" where
  "properties_move other =
     (\<lparr>props_m = props_m other\<rparr>, other\<lparr>props_m := zeroed_MQTTProperties\<rparr>)"

text \<open>
  Modelled from the spec: \<^verbatim>\<open>properties& operator=(properties&& rhs)\<close> is declared in the
  header and defined in properties.cpp. The specification says a move transfers the entire
  backing store and the source becomes empty. The result is the target and the source
  after the assignment of \<open>rhs\<close> to another list \<open>lhs\<close>.
\<close>

definition properties_move_assign :: "properties \<Rightarrow> properties \<Rightarrow> properties \<times> properties" where
  "properties_move_assign lhs rhs =
     (lhs\<lparr>props_m := props_m rhs\<rparr>, rhs\<lparr>props_m := MQTTProperties_initializer\<rparr>)"

text \<open>\<^verbatim>\<open>const MQTTProperties& c_struct() const { return props_; }\<close>\<close>

definition properties_c_struct :: "properties \<Rightarrow> MQTTProperties" where
  "properties_c_struct ps = props_m ps"

text \<open>\<^verbatim>\<open>void add(const property& prop) { ::MQTTProperties_add(&props_, &prop.c_struct()); }\<close>\<close>

definition properties_add :: "properties \<Rightarrow> property \<Rightarrow> properties" where
  "properties_add ps p = ps\<lparr>props_m := MQTTProperties_add (props_m ps) (c_struct p)\<rparr>"

text \<open>\<^verbatim>\<open>void clear() { ::MQTTProperties_free(&props_); }\<close>\<close>

definition properties_clear :: "properties \<Rightarrow> properties" where
  "properties_clear ps = ps\<lparr>props_m := MQTTProperties_free (props_m ps)\<rparr>"

text \<open>
  \<^verbatim>\<open>
  bool contains(property::code propid) const {
      return ::MQTTProperties_hasProperty(
                 const_cast<MQTTProperties*>(&props_), MQTTPropertyCodes(propid)) != 0;
  }\<close>
\<close>

definition properties_contains :: "properties \<Rightarrow> code \<Rightarrow> bool" where
  "properties_contains ps propid \<longleftrightarrow>
     MQTTProperties_hasProperty (props_m ps) (MQTTPropertyCodes propid) \<noteq> 0"

text \<open>
  \<^verbatim>\<open>
  size_t count(property::code propid) const {
      return size_t(::MQTTProperties_propertyCount(
                 const_cast<MQTTProperties*>(&props_), MQTTPropertyCodes(propid)));
  }\<close>
\<close>

definition properties_count :: "properties \<Rightarrow> code \<Rightarrow> nat" where
  "properties_count ps propid =
     size_t_of_int (MQTTProperties_propertyCount (props_m ps) (MQTTPropertyCodes propid))"

text \<open>
  Modelled from the spec: \<^verbatim>\<open>property get(property::code propid, size_t idx = 0) const\<close> is
  declared in the header and defined in properties.cpp. The specification says it finds
  the occurrence-th (0-based) element matching the code in list order, and fails with
  PropertyNotFound when no such occurrence exists.
\<close>

definition properties_get :: "properties \<Rightarrow> code \<Rightarrow> nat \<Rightarrow> error + property" where
  "properties_get ps propid idx =
     (case find_occurrence (elements (props_m ps)) (MQTTPropertyCodes propid) (int idx) of
        None \<Rightarrow> Inl PropertyNotFound
      | Some cprop \<Rightarrow> Inr (property_of_c cprop))"

subsection \<open>The free function get<T>(const properties&, property::code, size_t)\<close>

text \<open>
  \<^verbatim>\<open>
  template <typename T>
  inline T get(const properties& props, property::code propid, size_t idx) {
      MQTTProperty* prop = MQTTProperties_getPropertyAt(
          const_cast<MQTTProperties*>(&props.c_struct()), MQTTPropertyCodes(propid), int(idx));
      if (!prop)
          throw bad_cast();
      return get<T>(property(*prop));
  }\<close>
  The template argument is the extractor \<open>get_T\<close>: one of the specialisations above, or
  \<open>get_unspecialised\<close> for any other type.
\<close>

definition get_from_list ::
    "(property \<Rightarrow> error + 'a) \<Rightarrow> properties \<Rightarrow> code \<Rightarrow> nat \<Rightarrow> error + 'a" where
  "get_from_list get_T props propid idx =
     (case MQTTProperties_getPropertyAt (properties_c_struct props) (MQTTPropertyCodes propid)
             (int_of_size_t idx) of
        None \<Rightarrow> Inl bad_cast
      | Some cprop \<Rightarrow> get_T (property_of_c cprop))"

subsection \<open>class properties::const_iterator\<close>

text \<open>
  The pointer \<^verbatim>\<open>curr_\<close> is its offset from \<^verbatim>\<open>props_.array\<close>. The member \<^verbatim>\<open>prop_\<close>
  (here \<open>iter_prop_m\<close>) is the value the last dereference materialised; the constructor
  leaves it uninitialised, so \<open>begin\<close> and \<open>end\<close> take what it holds as an argument.
\<close>

record const_iterator =
  curr_m :: nat
  iter_prop_m :: property

text \<open>
  \<^verbatim>\<open>const property& operator*() const { prop_ = property{*curr_}; return prop_; }\<close>
  The list gives the storage \<^verbatim>\<open>curr_\<close> points into.
\<close>

definition iterator_deref ::
    "properties \<Rightarrow> const_iterator \<Rightarrow> error + property \<times> const_iterator" where
  "iterator_deref ps it =
     (case array_read (array (props_m ps)) (curr_m it) of
        Inl e \<Rightarrow> Inl e
      | Inr cprop \<Rightarrow> Inr (property_of_c cprop, it\<lparr>iter_prop_m := property_of_c cprop\<rparr>))"

text \<open>\<^verbatim>\<open>const_iterator& operator++() noexcept { ++curr_; return *this; }\<close>\<close>

definition iterator_incr :: "const_iterator \<Rightarrow> const_iterator" where
  "iterator_incr it = it\<lparr>curr_m := curr_m it + 1\<rparr>"

text \<open>\<^verbatim>\<open>bool operator!=(const const_iterator& other) const noexcept { return curr_ != other.curr_; }\<close>\<close>

definition iterator_neq :: "const_iterator \<Rightarrow> const_iterator \<Rightarrow> bool" where
  "iterator_neq a b \<longleftrightarrow> curr_m a \<noteq> curr_m b"

text \<open>\<^verbatim>\<open>const_iterator begin() const { return const_iterator{props_.array}; }\<close>\<close>

definition properties_begin :: "properties \<Rightarrow> property \<Rightarrow> const_iterator" where
  "properties_begin ps u = \<lparr>curr_m = 0, iter_prop_m = u\<rparr>"

text \<open>\<^verbatim>\<open>const_iterator end() const { return const_iterator{props_.array + size()}; }\<close>\<close>

definition properties_end :: "properties \<Rightarrow> property \<Rightarrow> const_iterator" where
  "properties_end ps u = \<lparr>curr_m = 0 + properties_size ps, iter_prop_m = u\<rparr>"

text \<open>
  A complete forward iteration, \<^verbatim>\<open>for (auto it = ps.begin(), e = ps.end(); it != e; ++it)\<close>,
  collecting \<^verbatim>\<open>*it\<close>. The loop stops only when the two positions are equal, so it is a
  partial function: \<open>None\<close> is the loop that never ends.
\<close>

partial_function (option) iterate_from ::
    "properties \<Rightarrow> const_iterator \<Rightarrow> const_iterator \<Rightarrow> property list
       \<Rightarrow> (error + property list) option" where
  "iterate_from ps it e acc =
     (if iterator_neq it e then
        (case iterator_deref ps it of
           Inl err \<Rightarrow> Some (Inl err)
         | Inr (p, it') \<Rightarrow> iterate_from ps (iterator_incr it') e (acc @ [p]))
      else Some (Inr acc))"

definition for_each ::
    "properties \<Rightarrow> property \<Rightarrow> property \<Rightarrow> (error + property list) option" where
  "for_each ps u v = iterate_from ps (properties_begin ps u) (properties_end ps v) []"

subsection \<open>Construction of a property from a typed value\<close>

text \<open>The value kinds of the specification's data model.\<close>

datatype ValueKind = Byte | TwoByteInt | FourByteInt | VariableByteInt | BinaryData
  | Utf8String | Utf8StringPair

text \<open>
  Modelled from the spec: \<^verbatim>\<open>property(code c, int32_t val)\<close>, \<^verbatim>\<open>property(code c, string_ref val)\<close>
  and \<^verbatim>\<open>property(code c, string_ref name, string_ref val)\<close> are declared in the header and
  defined in properties.cpp. The specification says: the integer constructor is valid only
  if the code's kind is Byte, TwoByteInt, FourByteInt or VariableByteInt, and stores the
  integer narrowed to the kind's width; the bytes constructor is valid only if the kind is
  BinaryData or Utf8String, and owns the bytes; the pair constructor is valid only if the
  kind is Utf8StringPair, and owns both buffers; a value type that does not match the
  code's kind fails with InvalidPropertyKind at construction.

  The table of kinds is the Paho C library's; it is the argument \<open>kind\<close>. The argument \<open>u\<close>
  is what the members the constructor does not write hold.
\<close>

definition property_int ::
    "(code \<Rightarrow> ValueKind) \<Rightarrow> MQTTProperty \<Rightarrow> code \<Rightarrow> 32 word \<Rightarrow> error + property" where
  "property_int kind u c val =
     (case kind c of
        Byte \<Rightarrow>
          Inr \<lparr>prop_m = u\<lparr>identifier := MQTTPropertyCodes c, value_byte := ucast val\<rparr>\<rparr>
      | TwoByteInt \<Rightarrow>
          Inr \<lparr>prop_m = u\<lparr>identifier := MQTTPropertyCodes c, value_integer2 := ucast val\<rparr>\<rparr>
      | FourByteInt \<Rightarrow>
          Inr \<lparr>prop_m = u\<lparr>identifier := MQTTPropertyCodes c, value_integer4 := val\<rparr>\<rparr>
      | VariableByteInt \<Rightarrow>
          Inr \<lparr>prop_m = u\<lparr>identifier := MQTTPropertyCodes c, value_integer4 := val\<rparr>\<rparr>
      | _ \<Rightarrow> Inl InvalidPropertyKind)"

text \<open>\<^verbatim>\<open>property(code c, uint32_t val) : property(c, int32_t(val)) {}\<close>: the same 32 bits.\<close>

definition property_uint ::
    "(code \<Rightarrow> ValueKind) \<Rightarrow> MQTTProperty \<Rightarrow> code \<Rightarrow> 32 word \<Rightarrow> error + property" where
  "property_uint kind u c val = property_int kind u c val"

definition property_bytes ::
    "(code \<Rightarrow> ValueKind) \<Rightarrow> MQTTProperty \<Rightarrow> code \<Rightarrow> string \<Rightarrow> error + property" where
  "property_bytes kind u c val =
     (if kind c = BinaryData \<or> kind c = Utf8String then
        Inr \<lparr>prop_m = u\<lparr>identifier := MQTTPropertyCodes c,
                         value_data := \<lparr>len = int (length val), data = Some val\<rparr>\<rparr>\<rparr>
      else Inl InvalidPropertyKind)"

definition property_pair ::
    "(code \<Rightarrow> ValueKind) \<Rightarrow> MQTTProperty \<Rightarrow> code \<Rightarrow> string \<Rightarrow> string \<Rightarrow> error + property" where
  "property_pair kind u c name val =
     (if kind c = Utf8StringPair then
        Inr \<lparr>prop_m = u\<lparr>identifier := MQTTPropertyCodes c,
                         value_data := \<lparr>len = int (length name), data = Some name\<rparr>,
                         value_value := \<lparr>len = int (length val), data = Some val\<rparr>\<rparr>\<rparr>
      else Inl InvalidPropertyKind)"

text \<open>
  Modelled from the spec: \<^verbatim>\<open>std::string_view type_name() const\<close> is declared in the header
  and defined in properties.cpp, and so is the table \<^verbatim>\<open>TYPE_NAME\<close>. The specification says
  it looks the code up in a fixed table from codes to display names. The table is the
  argument, keyed by the enumerator's integer.
\<close>

definition type_name :: "(int \<rightharpoonup> string) \<Rightarrow> property \<Rightarrow> string option" where
  "type_name TYPE_NAME p = TYPE_NAME (property_type p)"

section \<open>Connect options (include/mqtt/connect_options.h)\<close>

text \<open>
  The members of the C struct \<^verbatim>\<open>MQTTAsync_connectOptions\<close> that the header's accessors read.
\<close>

record MQTTAsync_connectOptions =
  keepAliveInterval :: int
  connectTimeout :: int
  maxInflight :: int
  cleansession :: int
  cleanstart :: int
  MQTTVersion :: int
  automaticReconnect :: int
  minRetryInterval :: int
  maxRetryInterval :: int
  socket_fwmark :: int

text \<open>
  \<^verbatim>\<open>class connect_options\<close>, member by member (\<^verbatim>\<open>opts_\<close> is \<open>opts_m\<close>, and so on; the list
  \<^verbatim>\<open>props_\<close> is \<open>connect_props_m\<close>). The classes of the will options, the SSL options and
  the token are not in these files: they are type parameters. A \<^verbatim>\<open>string_ref\<close>, a
  \<^verbatim>\<open>binary_ref\<close> and the pointer to the server URIs may be null, \<open>None\<close>.
\<close>

record ('will, 'ssl, 'tok) connect_options =
  opts_m :: MQTTAsync_connectOptions
  will_m :: 'will
  ssl_m :: 'ssl
  userName_m :: "string option"
  password_m :: "string option"
  tok_m :: 'tok
  serverURIs_m :: "string list option"
  connect_props_m :: properties
  httpHeaders_m :: "(string \<times> string) list"
  httpProxy_m :: string
  httpsProxy_m :: string

text \<open>\<^verbatim>\<open>return std::chrono::seconds(opts_.keepAliveInterval);\<close>\<close>

definition get_keep_alive_interval :: "('w, 's, 't) connect_options \<Rightarrow> int" where
  "get_keep_alive_interval c = keepAliveInterval (opts_m c)"

text \<open>\<^verbatim>\<open>return std::chrono::seconds(opts_.connectTimeout);\<close>\<close>

definition get_connect_timeout :: "('w, 's, 't) connect_options \<Rightarrow> int" where
  "get_connect_timeout c = connectTimeout (opts_m c)"

text \<open>\<^verbatim>\<open>string get_user_name() const { return userName_ ? userName_.to_string() : string(); }\<close>\<close>

definition get_user_name :: "('w, 's, 't) connect_options \<Rightarrow> string" where
  "get_user_name c = (case userName_m c of None \<Rightarrow> [] | Some s \<Rightarrow> s)"

text \<open>\<^verbatim>\<open>binary_ref get_password() const { return password_; }\<close>\<close>

definition get_password :: "('w, 's, 't) connect_options \<Rightarrow> string option" where
  "get_password c = password_m c"

text \<open>\<^verbatim>\<open>const will_options& get_will_options() const { return will_; }\<close>\<close>

definition get_will_options :: "('w, 's, 't) connect_options \<Rightarrow> 'w" where
  "get_will_options c = will_m c"

text \<open>\<^verbatim>\<open>const ssl_options& get_ssl_options() const { return ssl_; }\<close>\<close>

definition get_ssl_options :: "('w, 's, 't) connect_options \<Rightarrow> 's" where
  "get_ssl_options c = ssl_m c"

text \<open>\<^verbatim>\<open>const_string_collection_ptr get_servers() const { return serverURIs_; }\<close>\<close>

definition get_servers :: "('w, 's, 't) connect_options \<Rightarrow> string list option" where
  "get_servers c = serverURIs_m c"

text \<open>\<^verbatim>\<open>const properties& get_properties() const { return props_; }\<close>\<close>

definition get_properties :: "('w, 's, 't) connect_options \<Rightarrow> properties" where
  "get_properties c = connect_props_m c"

text \<open>\<^verbatim>\<open>const name_value_collection& get_http_headers() const { return httpHeaders_; }\<close>\<close>

definition get_http_headers :: "('w, 's, 't) connect_options \<Rightarrow> (string \<times> string) list" where
  "get_http_headers c = httpHeaders_m c"

text \<open>\<^verbatim>\<open>string get_http_proxy() const { return httpProxy_; }\<close>\<close>

definition get_http_proxy :: "('w, 's, 't) connect_options \<Rightarrow> string" where
  "get_http_proxy c = httpProxy_m c"

text \<open>\<^verbatim>\<open>string get_https_proxy() const { return httpsProxy_; }\<close>\<close>

definition get_https_proxy :: "('w, 's, 't) connect_options \<Rightarrow> string" where
  "get_https_proxy c = httpsProxy_m c"

text \<open>
  Modelled from the spec: \<^verbatim>\<open>void set_properties(const properties& props)\<close> is declared in
  the header and defined in connect_options.cpp. The specification says it sets the
  property list held by the connection configuration from a copy of the argument.
\<close>

definition set_properties ::
    "('w, 's, 't) connect_options \<Rightarrow> properties \<Rightarrow> ('w, 's, 't) connect_options" where
  "set_properties c props = c\<lparr>connect_props_m := properties_copy props\<rparr>"

subsection \<open>Sample values\<close>

text \<open>Concrete properties and lists, on which the theorems below are instantiated.\<close>

definition null_MQTTLenString :: MQTTLenString where
  "null_MQTTLenString = \<lparr>len = 0, data = None\<rparr>"

definition sample_c_property :: "code \<Rightarrow> 32 word \<Rightarrow> MQTTProperty" where
  "sample_c_property c v =
     \<lparr>identifier = MQTTPropertyCodes c, value_byte = ucast v, value_integer2 = ucast v,
      value_integer4 = v, value_data = null_MQTTLenString, value_value = null_MQTTLenString\<rparr>"

definition sample_property :: "code \<Rightarrow> 32 word \<Rightarrow> property" where
  "sample_property c v = \<lparr>prop_m = sample_c_property c v\<rparr>"

definition sample_pair_property :: "string \<Rightarrow> property" where
  "sample_pair_property s =
     \<lparr>prop_m = (sample_c_property USER_PROPERTY 0)
        \<lparr>value_data := \<lparr>len = int (length s), data = Some s\<rparr>\<rparr>\<rparr>"

text \<open>A list of two elements in a storage of three slots.\<close>

definition sample_properties :: properties where
  "sample_properties =
     \<lparr>props_m = \<lparr>count = 2,
        array = [sample_c_property USER_PROPERTY 7, sample_c_property SERVER_KEEP_ALIVE 60,
                 sample_c_property MAXIMUM_QOS 1]\<rparr>\<rparr>"

text \<open>A table of kinds for three of the codes, every other code a four-byte integer.\<close>

definition sample_kind :: "code \<Rightarrow> ValueKind" where
  "sample_kind c =
     (if c = CONTENT_TYPE then Utf8String
      else if c = USER_PROPERTY then Utf8StringPair
      else if c = MAXIMUM_QOS then Byte
      else FourByteInt)"

definition sample_connect_options :: "(unit, unit, unit) connect_options" where
  "sample_connect_options =
     \<lparr>opts_m = \<lparr>keepAliveInterval = 60, connectTimeout = 30, maxInflight = 65535,
                 cleansession = 1, cleanstart = 0, MQTTVersion = 0, automaticReconnect = 0,
                 minRetryInterval = 1, maxRetryInterval = 60, socket_fwmark = 0\<rparr>,
      will_m = (), ssl_m = (), userName_m = Some ''user'', password_m = None, tok_m = (),
      serverURIs_m = None, connect_props_m = properties_default,
      httpHeaders_m = [(''Host'', ''broker'')], httpProxy_m = [], httpsProxy_m = []\<rparr>"

section \<open>Properties of the embedding\<close>

lemma size_t_of_int_nat: "0 \<le> n \<Longrightarrow> n < 2 ^ 31 \<Longrightarrow> size_t_of_int n = nat n"
  by (simp add: size_t_of_int_def)

lemma properties_size_wf:
  "wf_MQTTProperties (props_m ps) \<Longrightarrow> properties_size ps = nat (count (props_m ps))"
  by (simp add: properties_size_def wf_MQTTProperties_def size_t_of_int_nat)

subsection \<open>Checked element access\<close>

text \<open>
  C2: on every list in a state the class keeps (the empty list included), the checked
  accessor \<^verbatim>\<open>at(i)\<close> returns a copy of the element at position \<open>i\<close> exactly when
  \<open>i < size()\<close> and throws \<^verbatim>\<open>std::out_of_range\<close> (IndexOutOfRange) exactly when
  \<open>i \<ge> size()\<close>. In particular \<^verbatim>\<open>at(size())\<close> always fails, and on a list that is not empty
  \<^verbatim>\<open>at(size() - 1)\<close> succeeds with the last element.
\<close>

theorem properties_at_checked:
  assumes "wf_MQTTProperties (props_m ps)"
  shows "properties_at ps i =
           (if i < properties_size ps then Inr (property_of_c (elements (props_m ps) ! i))
            else Inl out_of_range)
         \<and> properties_at ps (properties_size ps) = Inl out_of_range
         \<and> (properties_empty ps \<or>
              properties_at ps (properties_size ps - 1)
                = Inr (property_of_c (last (elements (props_m ps)))))"
proof -
  let ?c = "props_m ps"
  from assms have n: "properties_size ps = nat (count ?c)"
    by (rule properties_size_wf)
  from assms have le: "nat (count ?c) \<le> length (array ?c)" and nonneg: "0 \<le> count ?c"
    by (simp_all add: wf_MQTTProperties_def)
  have len: "length (elements ?c) = nat (count ?c)"
    using le by (simp add: elements_def)
  have at: "properties_at ps j =
      (if j < properties_size ps then Inr (property_of_c (elements ?c ! j)) else Inl out_of_range)"
    for j
  proof -
    have "size_t_of_int (count ?c) = nat (count ?c)"
      using n by (simp add: properties_size_def)
    then show ?thesis
      using le by (simp add: properties_at_def n array_read_def elements_def)
  qed
  have past: "properties_at ps (properties_size ps) = Inl out_of_range"
    by (simp add: at)
  have lst: "properties_at ps (properties_size ps - 1)
      = Inr (property_of_c (last (elements ?c)))" if "\<not> properties_empty ps"
  proof -
    from that nonneg have pos: "0 < nat (count ?c)"
      by (simp add: properties_empty_def)
    then have "elements ?c \<noteq> []" using len by auto
    then have "last (elements ?c) = elements ?c ! (nat (count ?c) - 1)"
      by (simp add: last_conv_nth len)
    with pos show ?thesis by (simp add: at n)
  qed
  from at [of i] past lst show ?thesis by blast
qed

text \<open>The theorem on a list of two elements, and on the empty list.\<close>

theorem properties_at_checked_witness:
  "wf_MQTTProperties (props_m sample_properties)
   \<and> properties_size sample_properties = 2
   \<and> properties_at sample_properties 1 = Inr (sample_property SERVER_KEEP_ALIVE 60)
   \<and> properties_at sample_properties 2 = Inl out_of_range
   \<and> wf_MQTTProperties (props_m properties_default)
   \<and> properties_at properties_default 0 = Inl out_of_range"
proof -
  have wf: "wf_MQTTProperties (props_m sample_properties)"
    by (simp add: wf_MQTTProperties_def sample_properties_def)
  have wf0: "wf_MQTTProperties (props_m properties_default)"
    by (simp add: wf_MQTTProperties_def properties_default_def MQTTProperties_initializer_def)
  have sz0: "properties_size properties_default = 0"
    by (simp add: properties_size_def size_t_of_int_def properties_default_def
        MQTTProperties_initializer_def)
  have sz: "properties_size sample_properties = 2"
    by (simp add: properties_size_def size_t_of_int_def sample_properties_def)
  from properties_at_checked [OF wf, of 1] properties_at_checked [OF wf, of 2]
    properties_at_checked [OF wf0, of 0] wf wf0 sz sz0
  show ?thesis
    by (simp add: elements_def sample_properties_def property_of_c_def copy_def
        sample_property_def)
qed

subsection \<open>Signed extraction\<close>

text \<open>
  C7: the deprecated signed extractors are the two's-complement reading of the unsigned
  ones. \<^verbatim>\<open>get<int16_t>(p)\<close> lies in \<open>[-2^15, 2^15)\<close> and is equal to \<^verbatim>\<open>get<uint16_t>(p)\<close>
  modulo \<open>2^16\<close>; \<^verbatim>\<open>get<int32_t>(p)\<close> lies in \<open>[-2^31, 2^31)\<close> and is equal to
  \<^verbatim>\<open>get<uint32_t>(p)\<close> modulo \<open>2^32\<close>. This holds for every property.
\<close>

theorem signed_extraction_reinterprets:
  "get_int16 p mod 2 ^ 16 = uint (get_uint16 p)
   \<and> - (2 ^ 15) \<le> get_int16 p \<and> get_int16 p < 2 ^ 15
   \<and> get_int32 p mod 2 ^ 32 = uint (get_uint32 p)
   \<and> - (2 ^ 31) \<le> get_int32 p \<and> get_int32 p < 2 ^ 31"
proof -
  have m16: "sint w mod 2 ^ 16 = uint w" for w :: "16 word"
    by (simp add: uint_sint take_bit_eq_mod)
  have m32: "sint w mod 2 ^ 32 = uint w" for w :: "32 word"
    by (simp add: uint_sint take_bit_eq_mod)
  have l16: "- (2 ^ 15) \<le> sint w" and u16: "sint w < 2 ^ 15" for w :: "16 word"
    using sint_ge [of w] sint_lt [of w] by simp_all
  have l32: "- (2 ^ 31) \<le> sint w" and u32: "sint w < 2 ^ 31" for w :: "32 word"
    using sint_ge [of w] sint_lt [of w] by simp_all
  show ?thesis
    unfolding get_int16_def get_uint16_def get_int32_def get_uint32_def
    using m16 m32 l16 u16 l32 u32 by blast
qed

lemma signed_extraction_sample:
  "get_uint16 (sample_property TOPIC_ALIAS 65535) = 65535
   \<and> get_int16 (sample_property TOPIC_ALIAS 65535) = - 1
   \<and> get_uint32 (sample_property MAXIMUM_PACKET_SIZE 4294967295) = 4294967295
   \<and> get_int32 (sample_property MAXIMUM_PACKET_SIZE 4294967295) = - 1"
  by (simp add: get_uint16_def get_int16_def get_uint32_def get_int32_def c_struct_def
      sample_property_def sample_c_property_def)

subsection \<open>String extraction from a null buffer\<close>

text \<open>
  C10: when the data pointer of the C value is null, \<^verbatim>\<open>get<string>\<close> returns the empty
  string, whatever the length member holds. \<^verbatim>\<open>get<string_pair>\<close> returns the empty
  string for each component whose pointer is null: both components when both pointers
  are null, and the one component when the other is read from its buffer.
\<close>

theorem string_extractors_null_safe:
  "(data (value_data (c_struct p)) = None \<longrightarrow> get_string p = Inr [])
   \<and> (data (value_data (c_struct p)) = None \<and> data (value_value (c_struct p)) = None
        \<longrightarrow> get_string_pair p = Inr ([], []))
   \<and> (data (value_data (c_struct p)) = None
        \<and> string_of_MQTTLenString (value_value (c_struct p)) = Inr v
        \<longrightarrow> get_string_pair p = Inr ([], v))
   \<and> (string_of_MQTTLenString (value_data (c_struct p)) = Inr n
        \<and> data (value_value (c_struct p)) = None
        \<longrightarrow> get_string_pair p = Inr (n, []))"
  by (simp add: get_string_def get_string_pair_def string_of_MQTTLenString_def)

text \<open>The theorem on a property with two null pointers and on one with a name only.\<close>

theorem string_extractors_null_safe_witness:
  "data (value_data (c_struct (sample_property CONTENT_TYPE 5))) = None
   \<and> get_string (sample_property CONTENT_TYPE 5) = Inr []
   \<and> get_string_pair (sample_property CONTENT_TYPE 5) = Inr ([], [])
   \<and> string_of_MQTTLenString (value_data (c_struct (sample_pair_property ''key''))) = Inr ''key''
   \<and> data (value_value (c_struct (sample_pair_property ''key''))) = None
   \<and> get_string_pair (sample_pair_property ''key'') = Inr (''key'', [])"
proof -
  have a: "data (value_data (c_struct (sample_property CONTENT_TYPE 5))) = None"
    and b: "data (value_value (c_struct (sample_property CONTENT_TYPE 5))) = None"
    by (simp_all add: c_struct_def sample_property_def sample_c_property_def
        null_MQTTLenString_def)
  have c: "string_of_MQTTLenString (value_data (c_struct (sample_pair_property ''key''))) = Inr ''key''"
    and d: "data (value_value (c_struct (sample_pair_property ''key''))) = None"
    by (simp_all add: c_struct_def sample_pair_property_def sample_c_property_def
        null_MQTTLenString_def string_of_MQTTLenString_def string_of_buffer_def)
  from string_extractors_null_safe [of "sample_property CONTENT_TYPE 5" "[]" "[]"]
    string_extractors_null_safe [of "sample_pair_property ''key''" "[]" "''key''"] a b c d
  show ?thesis by simp
qed

subsection \<open>The lists the class builds are well formed\<close>

lemma wf_initializer: "wf_MQTTProperties MQTTProperties_initializer"
  by (simp add: wf_MQTTProperties_def MQTTProperties_initializer_def)

lemma wf_zeroed: "wf_MQTTProperties zeroed_MQTTProperties"
  by (simp add: wf_MQTTProperties_def zeroed_MQTTProperties_def)

lemma length_elements:
  "wf_MQTTProperties c \<Longrightarrow> length (elements c) = nat (count c)"
  by (simp add: wf_MQTTProperties_def elements_def)

lemma wf_add:
  "wf_MQTTProperties c \<Longrightarrow> count c + 1 < 2 ^ 31 \<Longrightarrow> wf_MQTTProperties (MQTTProperties_add c cprop)"
  by (simp add: wf_MQTTProperties_def MQTTProperties_add_def elements_def)

lemma elements_add:
  "wf_MQTTProperties c \<Longrightarrow> elements (MQTTProperties_add c cprop) = elements c @ [cprop]"
  by (simp add: wf_MQTTProperties_def MQTTProperties_add_def elements_def copy_def nat_add_distrib)

lemma wf_copy:
  "wf_MQTTProperties c \<Longrightarrow> wf_MQTTProperties (MQTTProperties_copy c)"
  by (simp add: wf_MQTTProperties_def MQTTProperties_copy_def elements_def)

lemma map_copy: "map copy es = es"
  by (induction es) (simp_all add: copy_def)

lemma elements_copy:
  "elements (MQTTProperties_copy c) = elements c"
proof -
  have "take (min (length a) n) a = take n a" for n and a :: "MQTTProperty list"
    by (cases "n \<le> length a") (simp_all add: min_def)
  then show ?thesis
    by (simp add: MQTTProperties_copy_def elements_def map_copy)
qed

subsection \<open>Forward iteration\<close>

text \<open>
  The loop from a position \<open>it\<close> to a position \<open>e\<close> inside the storage ends and
  collects the slots between them, whatever the iterator's scratch member holds.
\<close>

lemma iterate_from_run:
  assumes "curr_m e \<le> length (array (props_m ps))"
  shows "curr_m it \<le> curr_m e \<Longrightarrow>
         iterate_from ps it e acc =
           Some (Inr (acc @ map property_of_c (drop (curr_m it) (take (curr_m e) (array (props_m ps))))))"
proof (induction "curr_m e - curr_m it" arbitrary: it acc)
  case 0
  then have "curr_m it = curr_m e" by simp
  then show ?case
    by (subst iterate_from.simps) (simp add: iterator_neq_def)
next
  case (Suc d)
  let ?a = "array (props_m ps)"
  from Suc.hyps(2) have lt: "curr_m it < curr_m e" by simp
  with assms have inb: "curr_m it < length ?a" by simp
  let ?p = "property_of_c (?a ! curr_m it)"
  let ?it' = "iterator_incr (it\<lparr>iter_prop_m := ?p\<rparr>)"
  have c: "curr_m ?it' = Suc (curr_m it)"
    by (simp add: iterator_incr_def)
  have d: "d = curr_m e - curr_m ?it'"
    using Suc.hyps(2) c by simp
  have le: "curr_m ?it' \<le> curr_m e"
    using lt c by simp
  have step: "iterate_from ps it e acc = iterate_from ps ?it' e (acc @ [?p])"
    using lt inb
    by (subst iterate_from.simps) (simp add: iterator_neq_def iterator_deref_def array_read_def)
  have dr: "drop (curr_m it) (take (curr_m e) ?a)
      = ?a ! curr_m it # drop (Suc (curr_m it)) (take (curr_m e) ?a)"
    using lt inb by (simp add: Cons_nth_drop_Suc [symmetric])
  show ?case
    unfolding step Suc.hyps(1) [OF d le] c dr by simp
qed

lemma for_each_run:
  assumes "wf_MQTTProperties (props_m ps)"
  shows "for_each ps u v = Some (Inr (map property_of_c (elements (props_m ps))))"
proof -
  have n: "properties_size ps = nat (count (props_m ps))"
    using assms by (rule properties_size_wf)
  have le: "nat (count (props_m ps)) \<le> length (array (props_m ps))"
    using assms by (simp add: wf_MQTTProperties_def)
  show ?thesis
    unfolding for_each_def
    by (subst iterate_from_run)
      (simp_all add: properties_begin_def properties_end_def n le elements_def)
qed

text \<open>
  C6: a complete forward iteration from \<^verbatim>\<open>begin()\<close> to \<^verbatim>\<open>end()\<close> ends and yields the
  copies of the elements in list order, a finite sequence that depends on the list only, not on
  what the fresh iterators hold; so two iterations of the same list yield the same
  codes and values. On a list of size 0, \<^verbatim>\<open>begin()\<close> is equal to \<^verbatim>\<open>end()\<close> and the
  iteration yields no element.
\<close>

theorem iteration_deterministic:
  assumes "wf_MQTTProperties (props_m ps)"
  shows "for_each ps u v = Some (Inr (map property_of_c (elements (props_m ps))))
         \<and> for_each ps u' v' = for_each ps u v
         \<and> (properties_size ps = 0 \<longrightarrow>
              \<not> iterator_neq (properties_begin ps u) (properties_end ps v)
              \<and> for_each ps u v = Some (Inr []))"
proof -
  have n: "properties_size ps = nat (count (props_m ps))"
    using assms by (rule properties_size_wf)
  note run = for_each_run [OF assms]
  have zero: "\<not> iterator_neq (properties_begin ps u) (properties_end ps v)
      \<and> for_each ps u v = Some (Inr [])" if "properties_size ps = 0"
    using that run [of u v] n
    by (simp add: iterator_neq_def properties_begin_def properties_end_def elements_def)
  from run zero show ?thesis by simp
qed

text \<open>Two iterations of a list of two elements, and one of the empty list.\<close>

theorem iteration_deterministic_witness:
  "wf_MQTTProperties (props_m sample_properties)
   \<and> for_each sample_properties (sample_property MAXIMUM_QOS 0) (sample_property MAXIMUM_QOS 1)
       = Some (Inr [sample_property USER_PROPERTY 7, sample_property SERVER_KEEP_ALIVE 60])
   \<and> for_each sample_properties (sample_property TOPIC_ALIAS 9) (sample_property TOPIC_ALIAS 8)
       = Some (Inr [sample_property USER_PROPERTY 7, sample_property SERVER_KEEP_ALIVE 60])
   \<and> wf_MQTTProperties (props_m properties_default)
   \<and> properties_size properties_default = 0
   \<and> for_each properties_default (sample_property MAXIMUM_QOS 0) (sample_property MAXIMUM_QOS 1)
       = Some (Inr [])"
proof -
  have wf: "wf_MQTTProperties (props_m sample_properties)"
    by (simp add: wf_MQTTProperties_def sample_properties_def)
  have wf0: "wf_MQTTProperties (props_m properties_default)"
    by (simp add: wf_MQTTProperties_def properties_default_def MQTTProperties_initializer_def)
  have sz0: "properties_size properties_default = 0"
    by (simp add: properties_size_def size_t_of_int_def properties_default_def
        MQTTProperties_initializer_def)
  have els: "map property_of_c (elements (props_m sample_properties))
      = [sample_property USER_PROPERTY 7, sample_property SERVER_KEEP_ALIVE 60]"
    by (simp add: elements_def sample_properties_def property_of_c_def copy_def
        sample_property_def)
  from iteration_deterministic [OF wf, of "sample_property MAXIMUM_QOS 0" "sample_property MAXIMUM_QOS 1"
      "sample_property TOPIC_ALIAS 9" "sample_property TOPIC_ALIAS 8"]
    iteration_deterministic [OF wf0, of "sample_property MAXIMUM_QOS 0" "sample_property MAXIMUM_QOS 1"]
    wf wf0 sz0 els
  show ?thesis
    by (simp add: elements_def properties_default_def MQTTProperties_initializer_def)
qed

subsection \<open>Move and clear\<close>

text \<open>
  C5: after a list \<open>a\<close> is moved into another list \<open>b\<close>, by the move constructor or by
  move assignment, \<open>b\<close> holds what \<open>a\<close> held and \<open>a\<close> is equal to a freshly constructed
  list, so every later operation on it gives what it gives on a fresh list: \<^verbatim>\<open>size()\<close> is
  0, \<^verbatim>\<open>empty()\<close> is true, \<^verbatim>\<open>contains\<close> is false and \<^verbatim>\<open>count\<close> is 0 for every code,
  \<^verbatim>\<open>at\<close> fails for every index and an iteration yields no element.
\<close>

theorem move_leaves_source_empty:
  "fst (properties_move a) = a
   \<and> snd (properties_move a) = properties_default
   \<and> fst (properties_move_assign b a) = a
   \<and> snd (properties_move_assign b a) = properties_default
   \<and> properties_size properties_default = 0
   \<and> properties_empty properties_default
   \<and> \<not> properties_contains properties_default c
   \<and> properties_count properties_default c = 0
   \<and> properties_at properties_default i = Inl out_of_range
   \<and> for_each properties_default u v = Some (Inr [])"
proof -
  have m1: "fst (properties_move a) = a" and m2: "snd (properties_move a) = properties_default"
    by (simp_all add: properties_move_def properties_default_def zeroed_MQTTProperties_def
        MQTTProperties_initializer_def)
  have a1: "fst (properties_move_assign b a) = a"
    and a2: "snd (properties_move_assign b a) = properties_default"
    by (simp_all add: properties_move_assign_def properties_default_def)
  have c0: "props_m properties_default = \<lparr>count = 0, array = []\<rparr>"
    by (simp add: properties_default_def MQTTProperties_initializer_def)
  have sz: "properties_size properties_default = 0"
    by (simp add: properties_size_def size_t_of_int_def c0)
  have em: "properties_empty properties_default"
    by (simp add: properties_empty_def c0)
  have co: "\<not> properties_contains properties_default c"
    by (simp add: properties_contains_def MQTTProperties_hasProperty_def elements_def c0)
  have cn: "properties_count properties_default c = 0"
    by (simp add: properties_count_def MQTTProperties_propertyCount_def elements_def c0
        size_t_of_int_def)
  have at: "properties_at properties_default i = Inl out_of_range"
    by (simp add: properties_at_def size_t_of_int_def c0)
  have it: "for_each properties_default u v = Some (Inr [])"
    unfolding for_each_def
    by (subst iterate_from.simps)
      (simp add: iterator_neq_def properties_begin_def properties_end_def sz)
  from m1 m2 a1 a2 sz em co cn at it show ?thesis by blast
qed

text \<open>
  C8: \<^verbatim>\<open>clear()\<close> resets every list to empty: afterwards \<^verbatim>\<open>empty()\<close> is true and
  \<^verbatim>\<open>size()\<close> is 0. It is idempotent: a second \<^verbatim>\<open>clear()\<close> changes nothing, and clearing
  a freshly constructed list leaves it as it is.
\<close>

theorem clear_resets_and_is_idempotent:
  "properties_empty (properties_clear ps)
   \<and> properties_size (properties_clear ps) = 0
   \<and> properties_clear (properties_clear ps) = properties_clear ps
   \<and> properties_clear ps = properties_default
   \<and> properties_clear properties_default = properties_default"
  by (simp add: properties_clear_def MQTTProperties_free_def zeroed_MQTTProperties_def
      properties_empty_def properties_size_def size_t_of_int_def properties_default_def
      MQTTProperties_initializer_def)

subsection \<open>Lookup by code and occurrence\<close>

text \<open>
  The scan for an occurrence, the count and the membership test, each against the
  sublist of the elements that carry the code.
\<close>

lemma find_occurrence_filter:
  "0 \<le> k \<Longrightarrow>
   find_occurrence es c k =
     (if nat k < length (filter (\<lambda>e. identifier e = c) es)
      then Some (filter (\<lambda>e. identifier e = c) es ! nat k) else None)"
proof (induction es arbitrary: k)
  case Nil
  then show ?case by simp
next
  case (Cons e es)
  show ?case
  proof (cases "identifier e = c")
    case False
    with Cons show ?thesis by simp
  next
    case True
    show ?thesis
    proof (cases "k = 0")
      case True
      with \<open>identifier e = c\<close> show ?thesis by simp
    next
      case False
      with Cons.prems have k: "0 \<le> k - 1" and n: "nat k = Suc (nat (k - 1))" by simp_all
      from Cons.IH [OF k] True False n show ?thesis by simp
    qed
  qed
qed

lemma find_occurrence_negative:
  "k < 0 \<Longrightarrow> find_occurrence es c k = None"
  by (induction es arbitrary: k) simp_all

lemma count_matching_filter:
  "count_matching es c = int (length (filter (\<lambda>e. identifier e = c) es))"
  by (induction es) simp_all

lemma has_matching_filter:
  "has_matching es c = (if filter (\<lambda>e. identifier e = c) es = [] then 0 else 1)"
  by (induction es) simp_all

lemma MQTTPropertyCodes_inj: "MQTTPropertyCodes a = MQTTPropertyCodes b \<Longrightarrow> a = b"
  by (cases a; cases b; simp)

text \<open>
  C1: on the list built by appending properties with codes \<open>[X, Y, X, Z]\<close> in that order
  (\<open>Y\<close> and \<open>Z\<close> other than \<open>X\<close>), \<^verbatim>\<open>count(X)\<close> is 2, \<^verbatim>\<open>get(X, 0)\<close> returns the first
  appended property, \<^verbatim>\<open>get(X, 1)\<close> the third, and \<^verbatim>\<open>get(X, 2)\<close> fails with
  PropertyNotFound. In general, on every well-formed list \<^verbatim>\<open>get(code, k)\<close> returns the
  \<open>k\<close>-th (0-based) of the elements with that code, in list order, and fails with
  PropertyNotFound when there are \<open>k\<close> or fewer of them.
\<close>

theorem lookup_by_code_and_occurrence:
  assumes codes: "property_type p1 = MQTTPropertyCodes X" "property_type p2 = MQTTPropertyCodes Y"
      "property_type p3 = MQTTPropertyCodes X" "property_type p4 = MQTTPropertyCodes Z"
    and distinct: "X \<noteq> Y" "X \<noteq> Z"
    and built: "built = properties_add (properties_add (properties_add
                  (properties_add properties_default p1) p2) p3) p4"
    and wf: "wf_MQTTProperties (props_m ps)"
  shows "properties_count built X = 2
         \<and> properties_get built X 0 = Inr p1
         \<and> properties_get built X 1 = Inr p3
         \<and> properties_get built X 2 = Inl PropertyNotFound
         \<and> properties_get ps c k =
             (if k < length (filter (\<lambda>e. identifier e = MQTTPropertyCodes c) (elements (props_m ps)))
              then Inr (property_of_c
                     (filter (\<lambda>e. identifier e = MQTTPropertyCodes c) (elements (props_m ps)) ! k))
              else Inl PropertyNotFound)"
proof -
  have els: "elements (props_m built) = [c_struct p1, c_struct p2, c_struct p3, c_struct p4]"
    by (simp add: built properties_add_def MQTTProperties_add_def elements_def
        properties_default_def MQTTProperties_initializer_def copy_def)
  have ne: "MQTTPropertyCodes Y \<noteq> MQTTPropertyCodes X" "MQTTPropertyCodes Z \<noteq> MQTTPropertyCodes X"
    using distinct MQTTPropertyCodes_inj by blast+
  have ids: "identifier (c_struct p1) = MQTTPropertyCodes X"
      "identifier (c_struct p2) = MQTTPropertyCodes Y"
      "identifier (c_struct p3) = MQTTPropertyCodes X"
      "identifier (c_struct p4) = MQTTPropertyCodes Z"
    using codes by (simp_all add: property_type_def c_struct_def)
  have same: "property_of_c (c_struct p) = p" for p
    by (simp add: property_of_c_def c_struct_def copy_def)
  have cnt: "properties_count built X = 2"
    by (simp add: properties_count_def MQTTProperties_propertyCount_def els ids ne
        size_t_of_int_def)
  have g0: "properties_get built X 0 = Inr p1"
    by (simp add: properties_get_def els ids ne same)
  have g1: "properties_get built X 1 = Inr p3"
    by (simp add: properties_get_def els ids ne same)
  have g2: "properties_get built X 2 = Inl PropertyNotFound"
    by (simp add: properties_get_def els ids ne)
  have gen: "properties_get ps c k =
      (if k < length (filter (\<lambda>e. identifier e = MQTTPropertyCodes c) (elements (props_m ps)))
       then Inr (property_of_c
              (filter (\<lambda>e. identifier e = MQTTPropertyCodes c) (elements (props_m ps)) ! k))
       else Inl PropertyNotFound)"
    by (simp add: properties_get_def find_occurrence_filter)
  from cnt g0 g1 g2 gen show ?thesis by blast
qed

text \<open>The theorem on a list with codes user-property, content-type, user-property, reason-string.\<close>

theorem lookup_by_code_and_occurrence_witness:
  "properties_count (properties_add (properties_add (properties_add
       (properties_add properties_default (sample_property USER_PROPERTY 1))
         (sample_property CONTENT_TYPE 2)) (sample_property USER_PROPERTY 3))
         (sample_property REASON_STRING 4)) USER_PROPERTY = 2
   \<and> properties_get (properties_add (properties_add (properties_add
       (properties_add properties_default (sample_property USER_PROPERTY 1))
         (sample_property CONTENT_TYPE 2)) (sample_property USER_PROPERTY 3))
         (sample_property REASON_STRING 4)) USER_PROPERTY 1 = Inr (sample_property USER_PROPERTY 3)
   \<and> properties_get (properties_add (properties_add (properties_add
       (properties_add properties_default (sample_property USER_PROPERTY 1))
         (sample_property CONTENT_TYPE 2)) (sample_property USER_PROPERTY 3))
         (sample_property REASON_STRING 4)) USER_PROPERTY 2 = Inl PropertyNotFound
   \<and> properties_get sample_properties SERVER_KEEP_ALIVE 0 = Inr (sample_property SERVER_KEEP_ALIVE 60)
   \<and> properties_get sample_properties MAXIMUM_QOS 0 = Inl PropertyNotFound"
proof -
  have t: "property_type (sample_property c v) = MQTTPropertyCodes c" for c v
    by (simp add: property_type_def sample_property_def sample_c_property_def)
  have wf: "wf_MQTTProperties (props_m sample_properties)"
    by (simp add: wf_MQTTProperties_def sample_properties_def)
  have d: "USER_PROPERTY \<noteq> CONTENT_TYPE" "USER_PROPERTY \<noteq> REASON_STRING"
    by simp_all
  note th = lookup_by_code_and_occurrence [OF t t t t d refl wf]
  have els: "elements (props_m sample_properties)
      = [sample_c_property USER_PROPERTY 7, sample_c_property SERVER_KEEP_ALIVE 60]"
    by (simp add: elements_def sample_properties_def)
  have i: "identifier (sample_c_property c v) = MQTTPropertyCodes c" for c v
    by (simp add: sample_c_property_def)
  have p: "property_of_c (sample_c_property c v) = sample_property c v" for c v
    by (simp add: property_of_c_def copy_def sample_property_def)
  from th [of 1 2 3 4 SERVER_KEEP_ALIVE 0] th [of 1 2 3 4 MAXIMUM_QOS 0]
  show ?thesis by (simp add: els i p)
qed

subsection \<open>Typed lookup in a list\<close>

lemma int_of_size_t_small: "idx < 2 ^ 31 \<Longrightarrow> int_of_size_t idx = int idx"
proof -
  assume a: "idx < 2 ^ 31"
  then have b: "int idx < 2 ^ 31" by simp
  then have "int idx < 2 ^ 32" by simp
  then have "int idx mod 2 ^ 32 = int idx"
    by (intro mod_pos_pos_trivial) simp_all
  with b show ?thesis by (simp only: int_of_size_t_def Let_def if_True)
qed

text \<open>
  C3, as amended: for an occurrence index below \<open>2^31\<close>, the free function
  \<^verbatim>\<open>get<T>(list, code, idx)\<close> returns what \<^verbatim>\<open>get<T>\<close> returns on the property that the
  list lookup \<^verbatim>\<open>get(code, idx)\<close> finds. It throws \<^verbatim>\<open>bad_cast\<close> when the lookup finds no
  such occurrence, and it throws \<^verbatim>\<open>bad_cast\<close> as well when \<open>T\<close> is a type with no
  specialisation: the two failures are the same exception.
\<close>

theorem get_from_list_composes:
  assumes "idx < 2 ^ 31"
  shows "get_from_list get_T ps propid idx =
           (case properties_get ps propid idx of
              Inl e \<Rightarrow> Inl bad_cast
            | Inr p \<Rightarrow> get_T p)
         \<and> (properties_get ps propid idx = Inl PropertyNotFound
              \<longrightarrow> get_from_list get_T ps propid idx = Inl bad_cast)
         \<and> get_from_list get_unspecialised ps propid idx = (Inl bad_cast :: error + 'b)"
proof -
  have i: "int_of_size_t idx = int idx"
    using assms by (rule int_of_size_t_small)
  have comp: "get_from_list g ps propid idx =
      (case properties_get ps propid idx of Inl e \<Rightarrow> Inl bad_cast | Inr p \<Rightarrow> g p)"
    for g :: "property \<Rightarrow> error + 'c"
    by (simp add: get_from_list_def properties_get_def MQTTProperties_getPropertyAt_def
        properties_c_struct_def i split: option.split)
  have nf: "get_from_list get_T ps propid idx = Inl bad_cast"
    if "properties_get ps propid idx = Inl PropertyNotFound"
    using that by (simp add: comp)
  have un: "get_from_list get_unspecialised ps propid idx = (Inl bad_cast :: error + 'b)"
    by (simp add: get_from_list_def get_unspecialised_def split: option.split)
  from comp [of get_T] nf un show ?thesis by blast
qed

text \<open>The theorem at index 0: a value found, a code that is absent, a type with no specialisation.\<close>

theorem get_from_list_composes_witness:
  "(0::nat) < 2 ^ 31
   \<and> get_from_list (\<lambda>p. Inr (get_uint16 p)) sample_properties SERVER_KEEP_ALIVE 0 = Inr 60
   \<and> properties_get sample_properties MAXIMUM_QOS 0 = Inl PropertyNotFound
   \<and> get_from_list (\<lambda>p. Inr (get_uint8 p)) sample_properties MAXIMUM_QOS 0 = Inl bad_cast
   \<and> get_from_list (get_unspecialised :: property \<Rightarrow> error + bool) sample_properties
        SERVER_KEEP_ALIVE 0 = Inl bad_cast"
proof -
  have z: "(0::nat) < 2 ^ 31" by simp
  have els: "elements (props_m sample_properties)
      = [sample_c_property USER_PROPERTY 7, sample_c_property SERVER_KEEP_ALIVE 60]"
    by (simp add: elements_def sample_properties_def)
  have g1: "properties_get sample_properties SERVER_KEEP_ALIVE 0
      = Inr (sample_property SERVER_KEEP_ALIVE 60)"
    by (simp add: properties_get_def els sample_c_property_def property_of_c_def copy_def
        sample_property_def)
  have g2: "properties_get sample_properties MAXIMUM_QOS 0 = Inl PropertyNotFound"
    by (simp add: properties_get_def els sample_c_property_def)
  have v: "get_uint16 (sample_property SERVER_KEEP_ALIVE 60) = 60"
    by (simp add: get_uint16_def c_struct_def sample_property_def sample_c_property_def)
  have u: "get_from_list (get_unspecialised :: property \<Rightarrow> error + bool) sample_properties
      SERVER_KEEP_ALIVE 0 = Inl bad_cast"
    by (rule get_from_list_composes [OF z, THEN conjunct2, THEN conjunct2])
  from get_from_list_composes [OF z, THEN conjunct1,
      of "\<lambda>p. Inr (get_uint16 p)" sample_properties SERVER_KEEP_ALIVE]
    get_from_list_composes [OF z, THEN conjunct1,
      of "\<lambda>p. Inr (get_uint8 p)" sample_properties MAXIMUM_QOS]
    u g1 g2 v
  show ?thesis by simp
qed

text \<open>
  C3 as stated fails: a supported type on a list without the code, and an unsupported
  type on a list that holds the code, fail with the same error, \<open>bad_cast\<close>; neither is
  PropertyNotFound.
\<close>

theorem get_from_list_failures_indistinct:
  "get_from_list (\<lambda>p. Inr (get_uint8 p)) properties_default CONTENT_TYPE 0 = Inl bad_cast
   \<and> properties_get sample_properties USER_PROPERTY 0 = Inr (sample_property USER_PROPERTY 7)
   \<and> get_from_list (get_unspecialised :: property \<Rightarrow> error + bool) sample_properties
        USER_PROPERTY 0 = Inl bad_cast"
  by (simp add: get_from_list_def get_unspecialised_def MQTTProperties_getPropertyAt_def
      properties_c_struct_def int_of_size_t_def elements_def sample_properties_def
      properties_default_def MQTTProperties_initializer_def sample_c_property_def
      properties_get_def property_of_c_def copy_def sample_property_def)

text \<open>
  The index is narrowed by \<^verbatim>\<open>int(idx)\<close> before the scan: at \<open>idx = 2^32\<close> the free function
  reads occurrence 0, where the list lookup of the specification finds nothing.
\<close>

lemma get_from_list_index_narrowed:
  "properties_get sample_properties USER_PROPERTY 4294967296 = Inl PropertyNotFound
   \<and> get_from_list (\<lambda>p. Inr (get_uint8 p)) sample_properties USER_PROPERTY 4294967296 = Inr 7"
  by (simp add: get_from_list_def MQTTProperties_getPropertyAt_def
      properties_c_struct_def int_of_size_t_def elements_def sample_properties_def
      sample_c_property_def properties_get_def property_of_c_def copy_def
      get_uint8_def c_struct_def)

subsection \<open>Kind validation at construction\<close>

text \<open>
  C4: with content-type a code of kind Utf8String, the construction of a content-type
  property from an integer fails with InvalidPropertyKind, and the construction from a
  string succeeds; the property built carries the code, holds the string, and
  \<^verbatim>\<open>type_name()\<close> on it is the table's display name for content-type. In general, a
  constructor called for a code whose kind its value type does not match fails with
  InvalidPropertyKind and builds nothing, and the integer constructor succeeds on every
  code of an integer kind.
\<close>

theorem property_kind_validated:
  assumes "kind CONTENT_TYPE = Utf8String"
  shows "property_int kind u CONTENT_TYPE v = Inl InvalidPropertyKind
         \<and> property_uint kind u CONTENT_TYPE v = Inl InvalidPropertyKind
         \<and> (\<exists>p. property_bytes kind u CONTENT_TYPE s = Inr p
                \<and> property_type p = MQTTPropertyCodes CONTENT_TYPE
                \<and> get_string p = Inr s
                \<and> type_name TYPE_NAME p = TYPE_NAME (MQTTPropertyCodes CONTENT_TYPE))
         \<and> (kind c \<notin> {Byte, TwoByteInt, FourByteInt, VariableByteInt}
                \<longrightarrow> property_int kind u c v = Inl InvalidPropertyKind)
         \<and> (kind c \<notin> {BinaryData, Utf8String}
                \<longrightarrow> property_bytes kind u c s = Inl InvalidPropertyKind)
         \<and> (kind c \<noteq> Utf8StringPair
                \<longrightarrow> property_pair kind u c n s = Inl InvalidPropertyKind)
         \<and> (kind c \<in> {Byte, TwoByteInt, FourByteInt, VariableByteInt}
                \<longrightarrow> (\<exists>p. property_int kind u c v = Inr p
                          \<and> property_type p = MQTTPropertyCodes c))"
proof -
  have i: "property_int kind u c' v = Inl InvalidPropertyKind"
    if "kind c' \<notin> {Byte, TwoByteInt, FourByteInt, VariableByteInt}" for c'
    using that by (cases "kind c'") (simp_all add: property_int_def)
  have b: "property_bytes kind u c s = Inl InvalidPropertyKind"
    if "kind c \<notin> {BinaryData, Utf8String}"
    using that by (simp add: property_bytes_def)
  have pr: "property_pair kind u c n s = Inl InvalidPropertyKind" if "kind c \<noteq> Utf8StringPair"
    using that by (simp add: property_pair_def)
  have ok: "\<exists>p. property_int kind u c v = Inr p \<and> property_type p = MQTTPropertyCodes c"
    if "kind c \<in> {Byte, TwoByteInt, FourByteInt, VariableByteInt}"
    using that by (cases "kind c") (simp_all add: property_int_def property_type_def)
  have ci: "property_int kind u CONTENT_TYPE v = Inl InvalidPropertyKind"
    using assms by (simp add: i)
  then have cu: "property_uint kind u CONTENT_TYPE v = Inl InvalidPropertyKind"
    by (simp add: property_uint_def)
  let ?p = "\<lparr>prop_m = u\<lparr>identifier := MQTTPropertyCodes CONTENT_TYPE,
      value_data := \<lparr>len = int (length s), data = Some s\<rparr>\<rparr>\<rparr>"
  have s1: "property_bytes kind u CONTENT_TYPE s = Inr ?p"
    using assms by (simp add: property_bytes_def)
  have s2: "property_type ?p = MQTTPropertyCodes CONTENT_TYPE"
    by (simp add: property_type_def)
  have s3: "get_string ?p = Inr s"
    by (simp add: get_string_def c_struct_def string_of_MQTTLenString_def string_of_buffer_def)
  have s4: "type_name TYPE_NAME ?p = TYPE_NAME (MQTTPropertyCodes CONTENT_TYPE)"
    by (simp add: type_name_def property_type_def)
  from s1 s2 s3 s4 have cs: "\<exists>p. property_bytes kind u CONTENT_TYPE s = Inr p
      \<and> property_type p = MQTTPropertyCodes CONTENT_TYPE
      \<and> get_string p = Inr s
      \<and> type_name TYPE_NAME p = TYPE_NAME (MQTTPropertyCodes CONTENT_TYPE)"
    by blast
  from ci cu cs i [of c] b pr ok show ?thesis by blast
qed

text \<open>The theorem on the sample table of kinds.\<close>

theorem property_kind_validated_witness:
  "sample_kind CONTENT_TYPE = Utf8String
   \<and> property_int sample_kind (sample_c_property MAXIMUM_QOS 0) CONTENT_TYPE 5
       = Inl InvalidPropertyKind
   \<and> (\<exists>p. property_bytes sample_kind (sample_c_property MAXIMUM_QOS 0) CONTENT_TYPE
              ''text/plain'' = Inr p
          \<and> get_string p = Inr ''text/plain''
          \<and> type_name [3 \<mapsto> ''ContentType''] p = Some ''ContentType'')
   \<and> property_pair sample_kind (sample_c_property MAXIMUM_QOS 0) CONTENT_TYPE ''key'' ''text''
       = Inl InvalidPropertyKind
   \<and> (\<exists>p. property_int sample_kind (sample_c_property MAXIMUM_QOS 0) MESSAGE_EXPIRY_INTERVAL 5
              = Inr p
          \<and> property_type p = 2)"
proof -
  have h: "sample_kind CONTENT_TYPE = Utf8String"
    by (simp add: sample_kind_def)
  have k1: "sample_kind CONTENT_TYPE \<noteq> Utf8StringPair"
    by (simp add: sample_kind_def)
  have k2: "sample_kind MESSAGE_EXPIRY_INTERVAL \<in> {Byte, TwoByteInt, FourByteInt, VariableByteInt}"
    by (simp add: sample_kind_def)
  have n: "[3 \<mapsto> ''ContentType''] (MQTTPropertyCodes CONTENT_TYPE) = Some ''ContentType''"
      "MQTTPropertyCodes MESSAGE_EXPIRY_INTERVAL = 2"
    by simp_all
  note a = property_kind_validated [where kind = sample_kind
      and u = "sample_c_property MAXIMUM_QOS 0" and v = 5 and s = "''text/plain''"
      and TYPE_NAME = "[3 \<mapsto> ''ContentType'']" and c = MESSAGE_EXPIRY_INTERVAL
      and n = "''key''", OF h]
  note b = property_kind_validated [where kind = sample_kind
      and u = "sample_c_property MAXIMUM_QOS 0" and v = 5 and s = "''text''"
      and TYPE_NAME = "[3 \<mapsto> ''ContentType'']" and c = CONTENT_TYPE
      and n = "''key''", OF h]
  from a have a1: "property_int sample_kind (sample_c_property MAXIMUM_QOS 0) CONTENT_TYPE 5
      = Inl InvalidPropertyKind"
    by (rule conjunct1)
  from a have a2: "\<exists>p. property_bytes sample_kind (sample_c_property MAXIMUM_QOS 0) CONTENT_TYPE
              ''text/plain'' = Inr p
          \<and> get_string p = Inr ''text/plain''
          \<and> type_name [3 \<mapsto> ''ContentType''] p = Some ''ContentType''"
    unfolding n by blast
  from a k2 have a3: "\<exists>p. property_int sample_kind (sample_c_property MAXIMUM_QOS 0)
      MESSAGE_EXPIRY_INTERVAL 5 = Inr p \<and> property_type p = 2"
    unfolding n by blast
  from b k1 have b1: "property_pair sample_kind (sample_c_property MAXIMUM_QOS 0) CONTENT_TYPE
      ''key'' ''text'' = Inl InvalidPropertyKind"
    by blast
  from h a1 a2 b1 a3 show ?thesis by blast
qed

subsection \<open>The property list of the connect options\<close>

text \<open>
  C9: after \<^verbatim>\<open>c.set_properties(p)\<close>, the copying overload, with \<open>p\<close> a well-formed list,
  \<^verbatim>\<open>c.get_properties()\<close> has the size of \<open>p\<close>, the elements of \<open>p\<close> in the same order (so
  the same codes and values), and iterates as \<open>p\<close> does. The user name, the password, the
  will options, the SSL options, the keep-alive interval, the connect timeout, the server
  URIs, the HTTP headers and both proxies are what they were: putting the former list back
  gives the former object.
\<close>

theorem set_properties_frame:
  assumes "wf_MQTTProperties (props_m p)"
  shows "properties_size (get_properties (set_properties c p)) = properties_size p
         \<and> elements (props_m (get_properties (set_properties c p))) = elements (props_m p)
         \<and> for_each (get_properties (set_properties c p)) u v = for_each p u v
         \<and> get_user_name (set_properties c p) = get_user_name c
         \<and> get_password (set_properties c p) = get_password c
         \<and> get_will_options (set_properties c p) = get_will_options c
         \<and> get_ssl_options (set_properties c p) = get_ssl_options c
         \<and> get_keep_alive_interval (set_properties c p) = get_keep_alive_interval c
         \<and> get_connect_timeout (set_properties c p) = get_connect_timeout c
         \<and> get_servers (set_properties c p) = get_servers c
         \<and> get_http_headers (set_properties c p) = get_http_headers c
         \<and> get_http_proxy (set_properties c p) = get_http_proxy c
         \<and> get_https_proxy (set_properties c p) = get_https_proxy c
         \<and> (set_properties c p)\<lparr>connect_props_m := connect_props_m c\<rparr> = c"
proof -
  let ?q = "get_properties (set_properties c p)"
  have q: "props_m ?q = MQTTProperties_copy (props_m p)"
    by (simp add: get_properties_def set_properties_def properties_copy_def)
  have wfq: "wf_MQTTProperties (props_m ?q)"
    unfolding q using assms by (rule wf_copy)
  have els: "elements (props_m ?q) = elements (props_m p)"
    unfolding q by (rule elements_copy)
  have cnt: "count (props_m ?q) = count (props_m p)"
    unfolding q using length_elements [OF assms] assms
    by (simp add: MQTTProperties_copy_def wf_MQTTProperties_def)
  have sz: "properties_size ?q = properties_size p"
    by (simp add: properties_size_def cnt)
  have it: "for_each ?q u v = for_each p u v"
    by (simp add: for_each_run [OF wfq] for_each_run [OF assms] els)
  have frame: "get_user_name (set_properties c p) = get_user_name c"
      "get_password (set_properties c p) = get_password c"
      "get_will_options (set_properties c p) = get_will_options c"
      "get_ssl_options (set_properties c p) = get_ssl_options c"
      "get_keep_alive_interval (set_properties c p) = get_keep_alive_interval c"
      "get_connect_timeout (set_properties c p) = get_connect_timeout c"
      "get_servers (set_properties c p) = get_servers c"
      "get_http_headers (set_properties c p) = get_http_headers c"
      "get_http_proxy (set_properties c p) = get_http_proxy c"
      "get_https_proxy (set_properties c p) = get_https_proxy c"
      "(set_properties c p)\<lparr>connect_props_m := connect_props_m c\<rparr> = c"
    by (simp_all add: set_properties_def get_user_name_def get_password_def
        get_will_options_def get_ssl_options_def get_keep_alive_interval_def
        get_connect_timeout_def get_servers_def get_http_headers_def get_http_proxy_def
        get_https_proxy_def)
  from sz els it frame show ?thesis by blast
qed

text \<open>The theorem on the sample options and the sample list of two elements.\<close>

theorem set_properties_frame_witness:
  "wf_MQTTProperties (props_m sample_properties)
   \<and> properties_size (get_properties (set_properties sample_connect_options sample_properties)) = 2
   \<and> elements (props_m (get_properties (set_properties sample_connect_options sample_properties)))
       = [sample_c_property USER_PROPERTY 7, sample_c_property SERVER_KEEP_ALIVE 60]
   \<and> get_user_name (set_properties sample_connect_options sample_properties) = ''user''
   \<and> get_keep_alive_interval (set_properties sample_connect_options sample_properties) = 60
   \<and> get_connect_timeout (set_properties sample_connect_options sample_properties) = 30
   \<and> get_http_headers (set_properties sample_connect_options sample_properties)
       = [(''Host'', ''broker'')]"
proof -
  have wf: "wf_MQTTProperties (props_m sample_properties)"
    by (simp add: wf_MQTTProperties_def sample_properties_def)
  have sz: "properties_size sample_properties = 2"
    by (simp add: properties_size_def size_t_of_int_def sample_properties_def)
  have els: "elements (props_m sample_properties)
      = [sample_c_property USER_PROPERTY 7, sample_c_property SERVER_KEEP_ALIVE 60]"
    by (simp add: elements_def sample_properties_def)
  have g: "get_user_name sample_connect_options = ''user''"
      "get_keep_alive_interval sample_connect_options = 60"
      "get_connect_timeout sample_connect_options = 30"
      "get_http_headers sample_connect_options = [(''Host'', ''broker'')]"
    by (simp_all add: get_user_name_def get_keep_alive_interval_def get_connect_timeout_def
        get_http_headers_def sample_connect_options_def)
  from set_properties_frame [OF wf, of sample_connect_options] wf sz els g
  show ?thesis by simp
qed

end
